theory Spec2Isabelle
  imports Main "HOL-Library.Word"
begin

unbundle bit_operations_syntax

section \<open>Machine arithmetic of the kernels\<close>

text \<open>
  The kernels compute their indices on C \<open>int\<close> values. C division and remainder
  truncate towards zero; they are written out here and agree with \<open>div\<close> and
  \<open>mod\<close> on the non-negative thread indices of a launch. No index of a launch
  with 128 threads leaves the 32-bit range, so the values are plain integers.
\<close>

type_synonym u32 = "32 word"

definition c_div :: "int \<Rightarrow> int \<Rightarrow> int" where
  "c_div a b = sgn a * sgn b * (\<bar>a\<bar> div \<bar>b\<bar>)"

definition c_rem :: "int \<Rightarrow> int \<Rightarrow> int" where
  "c_rem a b = a - b * c_div a b"

section \<open>Thread coordinates\<close>

text \<open>
  \<open>warp_id = tid / 32\<close>, \<open>lane_id = tid % 32\<close>, \<open>group_id = lane_id >> 2\<close>,
  \<open>lane_in_group = lane_id & 3\<close> and, in the sparse kernel only,
  \<open>lane_in_work_group = lane_in_group % 2\<close>.
\<close>

definition threads_per_block :: int where
  "threads_per_block = 32 * 4"

definition warp_id :: "int \<Rightarrow> int" where
  "warp_id tid = c_div tid 32"

definition lane_id :: "int \<Rightarrow> int" where
  "lane_id tid = c_rem tid 32"

definition group_id :: "int \<Rightarrow> int" where
  "group_id tid = drop_bit 2 (lane_id tid)"

definition lane_in_group :: "int \<Rightarrow> int" where
  "lane_in_group tid = lane_id tid AND 3"

definition lane_in_work_group :: "int \<Rightarrow> int" where
  "lane_in_work_group tid = c_rem (lane_in_group tid) 2"

section \<open>Tile shapes\<close>

text \<open>The dense kernel multiplies 64x16 by 16x16; the sparse one 64x64 (stored 64x32) by 64x8.\<close>

definition dense_M :: int where "dense_M = 64"
definition dense_N :: int where "dense_N = 16"
definition dense_K :: int where "dense_K = 16"

definition sparse_M :: int where "sparse_M = 64"
definition sparse_N :: int where "sparse_N = 8"
definition sparse_K :: int where "sparse_K = 64"
definition sparse_K_A :: int where "sparse_K_A = 32"

section \<open>Result scatter\<close>

text \<open>
  The output buffer of halves is written through a \<open>uint32_t\<close> pointer, two halves per
  store, so an M x N tile has \<open>M * N / 2\<close> 32-bit cells.
\<close>

definition dense_cells :: int where
  "dense_cells = c_div (dense_M * dense_N) 2"

definition sparse_cells :: int where
  "sparse_cells = c_div (sparse_M * sparse_N) 2"

definition dense_offset1 :: "int \<Rightarrow> int" where
  "dense_offset1 tid = warp_id tid * 16 * 8 + group_id tid * 8 + lane_in_group tid"

definition dense_offset2 :: "int \<Rightarrow> int" where
  "dense_offset2 tid = warp_id tid * 16 * 8 + (group_id tid + 8) * 8 + lane_in_group tid"

text \<open>
  The four stores of the dense kernel, in program order: register slot \<open>r\<close> of the
  accumulator goes to the \<open>r\<close>-th offset.
\<close>

definition dense_store_offsets :: "int \<Rightarrow> int list" where
  "dense_store_offsets tid =
     [dense_offset1 tid, dense_offset2 tid, dense_offset1 tid + 4, dense_offset2 tid + 4]"

definition sparse_offset1 :: "int \<Rightarrow> int" where
  "sparse_offset1 tid = warp_id tid * 16 * 4 + group_id tid * 4 + lane_in_group tid"

definition sparse_offset2 :: "int \<Rightarrow> int" where
  "sparse_offset2 tid = warp_id tid * 16 * 4 + (group_id tid + 8) * 4 + lane_in_group tid"

definition sparse_store_offsets :: "int \<Rightarrow> int list" where
  "sparse_store_offsets tid = [sparse_offset1 tid, sparse_offset2 tid]"

definition dense_scatter :: "int \<times> nat \<Rightarrow> int" where
  "dense_scatter p = dense_store_offsets (fst p) ! snd p"

definition sparse_scatter :: "int \<times> nat \<Rightarrow> int" where
  "sparse_scatter p = sparse_store_offsets (fst p) ! snd p"

section \<open>Sparsity metadata\<close>

text \<open>
  The host allocates \<open>(M / 16) * (K / 16) * 8\<close> 32-bit metadata words. A thread loads
  one word before each of the two sparse multiplies; the offset is an \<open>int\<close>
  expression stored in a \<open>uint\<close>, so it is reduced modulo \<open>2 ^ 32\<close>. A load past the
  end of the buffer is a fault, \<open>None\<close> here.
\<close>

definition metadata_size :: int where
  "metadata_size = c_div sparse_M 16 * c_div sparse_K 16 * 8"

definition to_uint :: "int \<Rightarrow> nat" where
  "to_uint x = nat (x mod 2 ^ 32)"

definition metadata_offset_1 :: "int \<Rightarrow> nat" where
  "metadata_offset_1 tid =
     to_uint (warp_id tid * 8 * 4 + lane_in_work_group tid * 8 + group_id tid)"

definition metadata_offset_2 :: "int \<Rightarrow> nat" where
  "metadata_offset_2 tid =
     to_uint (warp_id tid * 8 * 4 + 8 * 2 + lane_in_work_group tid * 8 + group_id tid)"

definition load_u32 :: "u32 list \<Rightarrow> nat \<Rightarrow> u32 option" where
  "load_u32 arr i = (if i < length arr then Some (arr ! i) else None)"

section \<open>Shared buffers and matrix descriptors\<close>

text \<open>
  Both compute kernels declare \<open>__align__(128) __shared__ half A_shared[...]\<close> and
  \<open>__align__(16) __shared__ half B_shared[...]\<close>. A pointer into a buffer is the
  buffer and an offset counted in halves; its byte address adds twice the offset to the
  address the buffer was placed at.
\<close>

datatype smem_buf = A_shared | B_shared

datatype smem_ptr = Ptr (buffer: smem_buf) (elems: int)

fun declared_align :: "smem_buf \<Rightarrow> int" where
  "declared_align A_shared = 128"
| "declared_align B_shared = 16"

definition sizeof_half :: int where
  "sizeof_half = 2"

definition address_of :: "(smem_buf \<Rightarrow> int) \<Rightarrow> smem_ptr \<Rightarrow> int" where
  "address_of base p = base (buffer p) + sizeof_half * elems p"

text \<open>A placement of the two buffers that respects their declared alignment.\<close>

definition placed :: "(smem_buf \<Rightarrow> int) \<Rightarrow> bool" where
  "placed base =
     (0 \<le> base A_shared \<and> base A_shared mod declared_align A_shared = 0 \<and>
      0 \<le> base B_shared \<and> base B_shared mod declared_align B_shared = 0)"

text \<open>
  A descriptor is kept as the call that built it: \<open>make_desc<half *, l, s, z>(p)\<close>,
  \<open>make_desc_a<half *, z>(p)\<close> or \<open>make_desc_b<half *, z>(p)\<close>.
\<close>

datatype gmma_desc =
    Make_desc smem_ptr int int int
  | Make_desc_a smem_ptr int
  | Make_desc_b smem_ptr int

fun desc_ptr :: "gmma_desc \<Rightarrow> smem_ptr" where
  "desc_ptr (Make_desc p l s z) = p"
| "desc_ptr (Make_desc_a p z) = p"
| "desc_ptr (Make_desc_b p z) = p"

text \<open>
  Modelled from the spec: the bodies of \<open>make_desc\<close>, \<open>make_desc_a\<close> and
  \<open>make_desc_b\<close> (header \<open>wgmma.cuh\<close>) are not among the sources. The builder is
  \<open>build(base_ptr, leading_dim, stride_dim, swizzle_mode)\<close>, so the last integer
  template argument is the swizzle selector, 0 meaning none; the sparse host code agrees,
  pairing selector 0 with \<open>CU_TENSOR_MAP_SWIZZLE_NONE\<close> and selector 2 with
  \<open>CU_TENSOR_MAP_SWIZZLE_64B\<close>. The base pointer must be 128-byte aligned for a
  swizzled operand and 16-byte aligned otherwise.
\<close>

fun swizzle_mode :: "gmma_desc \<Rightarrow> int" where
  "swizzle_mode (Make_desc p l s z) = z"
| "swizzle_mode (Make_desc_a p z) = z"
| "swizzle_mode (Make_desc_b p z) = z"

definition required_alignment :: "int \<Rightarrow> int" where
  "required_alignment z = (if z = 0 then 16 else 128)"

definition desc_aligned :: "(smem_buf \<Rightarrow> int) \<Rightarrow> gmma_desc \<Rightarrow> bool" where
  "desc_aligned base d =
     (address_of base (desc_ptr d) mod required_alignment (swizzle_mode d) = 0)"

text \<open>
  A placement for concrete runs: \<open>A_shared\<close> at byte 1024 and \<open>B_shared\<close> behind the
  4096 bytes of the sparse kernel's \<open>A_shared\<close>, at byte 5120.
\<close>

fun example_base :: "smem_buf \<Rightarrow> int" where
  "example_base A_shared = 1024"
| "example_base B_shared = 5120"

text \<open>
  Another placement the declarations allow: \<open>A_shared\<close> at byte 0 and \<open>B_shared\<close> at
  byte 2064, behind the 2048 bytes of the dense kernel's \<open>A_shared\<close>, on a multiple of 16
  that is not a multiple of 128.
\<close>

fun dense_b_base :: "smem_buf \<Rightarrow> int" where
  "dense_b_base A_shared = 0"
| "dense_b_base B_shared = 2064"

section \<open>The instruction stream of a thread\<close>

text \<open>
  One \<open>wgmma.mma_async\<close> issue with its operands: the shape, whether it is the
  \<open>.sp\<close> form, the two descriptors, the metadata word and thread selector of the
  sparse form, scale-d (1 means D = D + A*B), the two sign operands and the two
  transpose operands.
\<close>

record wgmma_issue =
  shape_m :: int
  shape_n :: int
  shape_k :: int
  sp :: bool
  desc_a :: gmma_desc
  desc_b :: gmma_desc
  sp_meta :: "u32 option"
  sp_sel :: "int option"
  scale_d :: int
  scale_a :: int
  scale_b :: int
  trans_a :: int
  trans_b :: int

text \<open>
  What a thread executes, in program order, with the operand values it computed.
  \<open>Store_C off r\<close> is \<open>C_ptr[off] = c[r]\<close>.
\<close>

datatype event =
    Syncthreads
  | Bar_init int
  | Copy_in smem_buf int int
  | Arrive_tx int int
  | Arrive
  | Wait
  | Load_metadata nat
  | Build gmma_desc
  | Acc_init nat
  | Warpgroup_arrive
  | Wgmma wgmma_issue
  | Commit_batch
  | Warpgroup_wait int
  | Threadfence
  | Store_C int nat

definition sizeof_smem :: "int \<Rightarrow> int" where
  "sizeof_smem n = n * sizeof_half"

text \<open>The leader's branch issues both copies and arrives with the byte count; the others arrive.\<close>

definition load_tiles :: "int \<Rightarrow> int \<Rightarrow> int \<Rightarrow> event list" where
  "load_tiles tid a_len b_len =
     (if tid = 0
      then [Copy_in A_shared 0 0, Copy_in B_shared 0 0,
            Arrive_tx 1 (sizeof_smem a_len + sizeof_smem b_len)]
      else [Arrive])"

definition dense_issue :: "gmma_desc \<Rightarrow> gmma_desc \<Rightarrow> wgmma_issue" where
  "dense_issue da db =
     \<lparr>shape_m = 64, shape_n = 16, shape_k = 16, sp = False, desc_a = da, desc_b = db,
      sp_meta = None, sp_sel = None, scale_d = 1, scale_a = 1, scale_b = 1,
      trans_a = 0, trans_b = 1\<rparr>"

definition dense_kernel :: "int \<Rightarrow> event list" where
  "dense_kernel tid =
     (let desc_a = Make_desc_a (Ptr A_shared 0) 3;
          desc_b = Make_desc_b (Ptr B_shared 0) 3;
          offset1 = dense_offset1 tid;
          offset2 = dense_offset2 tid
      in [Syncthreads] @
         (if tid = 0 then [Bar_init threads_per_block] else []) @
         [Syncthreads] @
         load_tiles tid (dense_M * dense_K) (dense_K * dense_N) @
         [Wait, Syncthreads,
          Build desc_a, Build desc_b,
          Acc_init 4,
          Warpgroup_arrive,
          Wgmma (dense_issue desc_a desc_b),
          Commit_batch, Warpgroup_wait 0, Threadfence, Warpgroup_arrive,
          Store_C offset1 0, Store_C offset2 1,
          Store_C (offset1 + 4) 2, Store_C (offset2 + 4) 3])"

definition sparse_issue :: "gmma_desc \<Rightarrow> gmma_desc \<Rightarrow> u32 \<Rightarrow> wgmma_issue" where
  "sparse_issue da db metadata =
     \<lparr>shape_m = 64, shape_n = 8, shape_k = 32, sp = True, desc_a = da, desc_b = db,
      sp_meta = Some metadata, sp_sel = Some 0, scale_d = 1, scale_a = 1, scale_b = 1,
      trans_a = 0, trans_b = 1\<rparr>"

text \<open>
  The sparse kernel reads its two metadata words from the global buffer; a read past
  the end of the buffer faults and the thread has no instruction stream (\<open>None\<close>).
\<close>

definition sparse_kernel :: "u32 list \<Rightarrow> int \<Rightarrow> event list option" where
  "sparse_kernel metadata_array tid =
     (case load_u32 metadata_array (metadata_offset_1 tid) of
        None \<Rightarrow> None
      | Some metadata1 \<Rightarrow>
          (case load_u32 metadata_array (metadata_offset_2 tid) of
             None \<Rightarrow> None
           | Some metadata2 \<Rightarrow>
               (let desc_a1 = Make_desc (Ptr A_shared 0) 8 32 2;
                    desc_b1 = Make_desc (Ptr B_shared 0) 8 16 0;
                    desc_a2 = Make_desc (Ptr A_shared (c_div sparse_K_A 2)) 8 32 2;
                    desc_b2 = Make_desc (Ptr B_shared (32 * sparse_N)) 8 8 0;
                    offset1 = sparse_offset1 tid;
                    offset2 = sparse_offset2 tid
                in Some
                  ((if tid = 0 then [Bar_init threads_per_block] else []) @
                   [Syncthreads] @
                   load_tiles tid (sparse_M * sparse_K_A) (sparse_K * sparse_N) @
                   [Wait, Syncthreads,
                    Load_metadata (metadata_offset_1 tid),
                    Syncthreads,
                    Build desc_a1, Build desc_b1,
                    Acc_init 2,
                    Warpgroup_arrive,
                    Wgmma (sparse_issue desc_a1 desc_b1 metadata1),
                    Build desc_a2, Build desc_b2,
                    Warpgroup_arrive,
                    Load_metadata (metadata_offset_2 tid),
                    Wgmma (sparse_issue desc_a2 desc_b2 metadata2),
                    Commit_batch, Warpgroup_wait 0, Threadfence, Warpgroup_arrive,
                    Store_C offset1 0, Store_C offset2 1]))))"

subsection \<open>Projections of an instruction stream\<close>

fun builds :: "event list \<Rightarrow> gmma_desc list" where
  "builds [] = []"
| "builds (Build d # es) = d # builds es"
| "builds (e # es) = builds es"

fun issues :: "event list \<Rightarrow> wgmma_issue list" where
  "issues [] = []"
| "issues (Wgmma i # es) = i # issues es"
| "issues (e # es) = issues es"

fun metadata_loads :: "event list \<Rightarrow> nat list" where
  "metadata_loads [] = []"
| "metadata_loads (Load_metadata off # es) = off # metadata_loads es"
| "metadata_loads (e # es) = metadata_loads es"

text \<open>The events that name the accumulator \<open>c\<close>: its declaration, the multiplies, the stores.\<close>

fun touches_acc :: "event \<Rightarrow> bool" where
  "touches_acc (Acc_init n) = True"
| "touches_acc (Wgmma i) = True"
| "touches_acc (Store_C off r) = True"
| "touches_acc e = False"

fun is_issue :: "event \<Rightarrow> bool" where
  "is_issue (Wgmma i) = True"
| "is_issue e = False"

text \<open>Whether every descriptor a thread builds has the alignment its swizzle selector requires.\<close>

definition dense_descs_aligned :: "(smem_buf \<Rightarrow> int) \<Rightarrow> int \<Rightarrow> bool" where
  "dense_descs_aligned base tid = list_all (desc_aligned base) (builds (dense_kernel tid))"

definition sparse_descs_aligned :: "(smem_buf \<Rightarrow> int) \<Rightarrow> u32 list \<Rightarrow> int \<Rightarrow> bool option" where
  "sparse_descs_aligned base metadata_array tid =
     map_option (\<lambda>es. list_all (desc_aligned base) (builds es))
       (sparse_kernel metadata_array tid)"

subsection \<open>Running a thread\<close>

text \<open>
  The tensor core is a parameter \<open>hw\<close>: what one issue makes of a thread's accumulator
  registers, given the thread index. The operand tiles it reads are fixed for a launch
  and are part of \<open>hw\<close>; it hands back the registers it was given, so the list keeps
  its length. \<open>thread_writes\<close> follows the accumulator through the stream and returns
  the stores to \<open>C_ptr\<close> in program order, each with the register value stored;
  \<open>final_acc\<close> is the accumulator at the end of the stream.
\<close>

fun thread_writes ::
  "(wgmma_issue \<Rightarrow> int \<Rightarrow> u32 list \<Rightarrow> u32 list) \<Rightarrow> int \<Rightarrow> event list \<Rightarrow> u32 list
     \<Rightarrow> (int \<times> u32) list" where
  "thread_writes hw tid [] c = []"
| "thread_writes hw tid (Acc_init n # es) c = thread_writes hw tid es (replicate n 0)"
| "thread_writes hw tid (Wgmma i # es) c = thread_writes hw tid es (hw i tid c)"
| "thread_writes hw tid (Store_C off r # es) c = (off, c ! r) # thread_writes hw tid es c"
| "thread_writes hw tid (e # es) c = thread_writes hw tid es c"

fun final_acc ::
  "(wgmma_issue \<Rightarrow> int \<Rightarrow> u32 list \<Rightarrow> u32 list) \<Rightarrow> int \<Rightarrow> event list \<Rightarrow> u32 list
     \<Rightarrow> u32 list" where
  "final_acc hw tid [] c = c"
| "final_acc hw tid (Acc_init n # es) c = final_acc hw tid es (replicate n 0)"
| "final_acc hw tid (Wgmma i # es) c = final_acc hw tid es (hw i tid c)"
| "final_acc hw tid (e # es) c = final_acc hw tid es c"

section \<open>The one-dimensional load, add one, store kernel\<close>

text \<open>
  The array holds C \<open>int\<close> values, 32-bit words in two's complement here; \<open>+= 1\<close> wraps in
  the model.
\<close>

type_synonym i32 = "32 word"

definition array_size :: int where "array_size = 128"
definition tile_size :: int where "tile_size = 16"

text \<open>
  Modelled from the spec: \<open>create_1d_tensor_map\<close> (header \<open>tma_tensor_map.cuh\<close>) and
  the bulk tensor copies of the copy engine are not among the sources. The tile
  descriptor is the length of the global array and the length of a tile; a load copies
  the tile that starts at the coordinate from the global array into the scratch buffer,
  a store copies the scratch buffer back over the same elements. A tile that does not
  lie inside the array is outside the model (\<open>None\<close>).
\<close>

record tensor_map_1d =
  global_len :: int
  box_len :: int

definition create_1d_tensor_map :: "int \<Rightarrow> int \<Rightarrow> tensor_map_1d" where
  "create_1d_tensor_map n box = \<lparr>global_len = n, box_len = box\<rparr>"

definition tile_inside :: "tensor_map_1d \<Rightarrow> i32 list \<Rightarrow> int \<Rightarrow> bool" where
  "tile_inside tm g coordinate =
     (int (length g) = global_len tm \<and> 0 \<le> coordinate \<and> 0 \<le> box_len tm \<and>
      coordinate + box_len tm \<le> global_len tm)"

definition cp_async_bulk_tensor_1d_global_to_shared ::
  "tensor_map_1d \<Rightarrow> i32 list \<Rightarrow> int \<Rightarrow> i32 list option" where
  "cp_async_bulk_tensor_1d_global_to_shared tm g coordinate =
     (if tile_inside tm g coordinate
      then Some (take (nat (box_len tm)) (drop (nat coordinate) g))
      else None)"

definition cp_async_bulk_tensor_1d_shared_to_global ::
  "tensor_map_1d \<Rightarrow> i32 list \<Rightarrow> int \<Rightarrow> i32 list \<Rightarrow> i32 list option" where
  "cp_async_bulk_tensor_1d_shared_to_global tm g coordinate tile =
     (if tile_inside tm g coordinate \<and> int (length tile) = box_len tm
      then Some (take (nat coordinate) g @ tile @ drop (nat (coordinate + box_len tm)) g)
      else None)"

text \<open>
  \<open>for (int i = threadIdx.x; i < array_size; i += blockDim.x) if (i < tile_size)
  tile_shared[i] += 1;\<close> A block has at least one thread; with a block dimension that
  is not positive the loop of the model stops.
\<close>

function add_one_loop :: "int \<Rightarrow> int \<Rightarrow> i32 list \<Rightarrow> i32 list" where
  "add_one_loop block_dim i tile_shared =
     (if i < array_size \<and> 0 < block_dim
      then add_one_loop block_dim (i + block_dim)
             (if i < tile_size then tile_shared[nat i := tile_shared ! nat i + 1]
              else tile_shared)
      else tile_shared)"
  by pat_completeness auto
termination
  by (relation "measure (\<lambda>(block_dim, i, tile_shared). nat (array_size - i))") auto

declare add_one_loop.simps [simp del]

text \<open>
  The kernel: the leader's load, then every thread's loop in the order \<open>sched\<close> the
  threads happen to run in, then the leader's store after the block barrier. The scratch
  buffer is \<open>int tile_shared[tile_size]\<close> and the barrier waits for
  \<open>sizeof(tile_shared)\<close> bytes, so the tile of the descriptor has to be \<open>tile_size\<close>
  long; any other descriptor is outside the model.
\<close>

definition add_one_kernel ::
  "tensor_map_1d \<Rightarrow> int \<Rightarrow> int \<Rightarrow> int list \<Rightarrow> i32 list \<Rightarrow> i32 list option" where
  "add_one_kernel tensor_map coordinate block_dim sched g =
     (if box_len tensor_map \<noteq> tile_size then None
      else
        (case cp_async_bulk_tensor_1d_global_to_shared tensor_map g coordinate of
           None \<Rightarrow> None
         | Some tile_shared \<Rightarrow>
             cp_async_bulk_tensor_1d_shared_to_global tensor_map g coordinate
               (fold (add_one_loop block_dim) sched tile_shared)))"

text \<open>The host: \<open>h_data[i] = i\<close>, the second tile, one block of 128 threads.\<close>

definition h_data :: "i32 list" where
  "h_data = map of_int [0..array_size - 1]"

definition add_one_main :: "int list \<Rightarrow> i32 list option" where
  "add_one_main sched =
     add_one_kernel (create_1d_tensor_map array_size tile_size) (tile_size * 1) 128 sched h_data"

section \<open>Arithmetic of the thread coordinates\<close>

text \<open>On the non-negative indices of a launch the C operators are \<open>div\<close> and \<open>mod\<close>.\<close>

lemma c_div_nonneg: "0 \<le> a \<Longrightarrow> 0 < b \<Longrightarrow> c_div a b = a div b"
  by (simp add: c_div_def sgn_if)

lemma c_rem_nonneg: "0 \<le> a \<Longrightarrow> 0 < b \<Longrightarrow> c_rem a b = a mod b"
  by (simp add: c_rem_def c_div_nonneg minus_mult_div_eq_mod)

lemma and3: "0 \<le> (x::int) \<Longrightarrow> x AND 3 = x mod 4"
  using take_bit_eq_mask[of 2 x] by (simp add: take_bit_eq_mod mask_eq_exp_minus_1)

lemma warp_id_eq: "0 \<le> tid \<Longrightarrow> warp_id tid = tid div 32"
  by (simp add: warp_id_def c_div_nonneg)

lemma lane_id_eq: "0 \<le> tid \<Longrightarrow> lane_id tid = tid mod 32"
  by (simp add: lane_id_def c_rem_nonneg)

lemma group_id_eq: "0 \<le> tid \<Longrightarrow> group_id tid = tid mod 32 div 4"
  by (simp add: group_id_def lane_id_eq drop_bit_eq_div)

lemma lane_in_group_eq: "0 \<le> tid \<Longrightarrow> lane_in_group tid = tid mod 4"
  by (simp add: lane_in_group_def lane_id_eq and3 mod_mod_cancel)

lemma lane_in_work_group_eq: "0 \<le> tid \<Longrightarrow> lane_in_work_group tid = tid mod 2"
  by (simp add: lane_in_work_group_def lane_in_group_eq c_rem_nonneg mod_mod_cancel)

subsection \<open>Mixed-radix digits\<close>

text \<open>Quotient and remainder of \<open>m * q + r\<close> with \<open>0 \<le> r < m\<close>.\<close>

lemma digit_div: "0 \<le> r \<Longrightarrow> r < m \<Longrightarrow> (m * q + r) div m = (q::int)"
  by (simp add: div_pos_pos_trivial)

lemma digit_mod: "0 \<le> r \<Longrightarrow> r < m \<Longrightarrow> (m * q + r) mod m = (r::int)"
  by (simp add: mod_pos_pos_trivial)

lemma digit_unique:
  assumes "0 \<le> r" "r < m" "0 \<le> r'" "r' < m" "m * q + r = m * q' + (r'::int)"
  shows "q = q' \<and> r = r'"
proof -
  have "q = (m * q + r) div m"
    using assms(1,2) by (simp only: digit_div)
  also have "\<dots> = (m * q' + r') div m"
    by (simp only: assms(5))
  also have "\<dots> = q'"
    using assms(3,4) by (simp only: digit_div)
  finally have "q = q'" .
  with assms(5) show ?thesis by simp
qed

text \<open>A thread index below 128 is warp, lane group and lane in group.\<close>

lemma tid_digits:
  assumes "0 \<le> tid" "tid < (128::int)"
  shows "tid = 32 * (tid div 32) + (4 * (tid mod 32 div 4) + tid mod 4)"
    and "0 \<le> tid div 32" and "tid div 32 < 4"
    and "0 \<le> tid mod 32 div 4" and "tid mod 32 div 4 < 8"
    and "0 \<le> tid mod 4" and "tid mod 4 < 4"
proof -
  have "tid mod 32 = 4 * (tid mod 32 div 4) + tid mod 32 mod 4"
    by simp
  then have "tid mod 32 = 4 * (tid mod 32 div 4) + tid mod 4"
    by (simp add: mod_mod_cancel)
  then show "tid = 32 * (tid div 32) + (4 * (tid mod 32 div 4) + tid mod 4)"
    using mult_div_mod_eq [of 32 tid] by linarith
  show "0 \<le> tid div 32" using assms by simp
  show "tid div 32 < 4" using assms by simp
  show "0 \<le> tid mod 32 div 4" by simp
  have "tid mod 32 < 32" by simp
  then show "tid mod 32 div 4 < 8" by simp
  show "0 \<le> tid mod 4" by simp
  show "tid mod 4 < 4" by simp
qed

lemma radix_dense_unique:
  fixes w b g h l w' b' g' h' l' :: int
  assumes "0 \<le> b" "b < 2" "0 \<le> g" "g < 8" "0 \<le> h" "h < 2" "0 \<le> l" "l < 4"
    and "0 \<le> b'" "b' < 2" "0 \<le> g'" "g' < 8" "0 \<le> h'" "h' < 2" "0 \<le> l'" "l' < 4"
    and e: "128 * w + (64 * b + (8 * g + (4 * h + l))) = 128 * w' + (64 * b' + (8 * g' + (4 * h' + l')))"
  shows "w = w' \<and> b = b' \<and> g = g' \<and> h = h' \<and> l = l'"
proof -
  have w: "w = w'"
    and e1: "64 * b + (8 * g + (4 * h + l)) = 64 * b' + (8 * g' + (4 * h' + l'))"
    using digit_unique [OF _ _ _ _ e] assms(1-16) by linarith+
  have b: "b = b'"
    and e2: "8 * g + (4 * h + l) = 8 * g' + (4 * h' + l')"
    using digit_unique [OF _ _ _ _ e1] assms(1-16) by linarith+
  have g: "g = g'"
    and e3: "4 * h + l = 4 * h' + l'"
    using digit_unique [OF _ _ _ _ e2] assms(1-16) by linarith+
  have "h = h'" "l = l'"
    using digit_unique [OF _ _ _ _ e3] assms(1-16) by linarith+
  with w b g show ?thesis by simp
qed

lemma radix_dense_bound:
  fixes w b g h l :: int
  assumes "0 \<le> w" "w < 4" "0 \<le> b" "b < 2" "0 \<le> g" "g < 8" "0 \<le> h" "h < 2" "0 \<le> l" "l < 4"
  shows "0 \<le> 128 * w + (64 * b + (8 * g + (4 * h + l)))"
    and "128 * w + (64 * b + (8 * g + (4 * h + l))) < 512"
  using assms by linarith+

lemma slot_bounds:
  assumes "r < (4::nat)"
  shows "0 \<le> int (r mod 2)" "int (r mod 2) < 2" "0 \<le> int (r div 2)" "int (r div 2) < 2"
  using assms by simp_all

lemma slot_digits:
  assumes "int (r mod 2) = int (r' mod 2)" "int (r div 2) = int (r' div 2)"
  shows "r = r'"
proof -
  have "r = 2 * (r div 2) + r mod 2" "r' = 2 * (r' div 2) + r' mod 2"
    by simp_all
  with assms show ?thesis by simp
qed

lemma dense_scatter_digits:
  assumes "0 \<le> tid" "r < 4"
  shows "dense_scatter (tid, r) =
    128 * (tid div 32) + (64 * int (r mod 2) + (8 * (tid mod 32 div 4) + (4 * int (r div 2) + tid mod 4)))"
proof -
  from assms(2) consider "r = 0" | "r = 1" | "r = 2" | "r = 3"
    by linarith
  then show ?thesis
    using assms(1)
    by cases
      (simp_all add: dense_scatter_def dense_store_offsets_def dense_offset1_def dense_offset2_def
        warp_id_eq group_id_eq lane_in_group_eq)
qed

lemma dense_scatter_inj: "inj_on dense_scatter ({0..<128} \<times> {0..<4})"
proof (rule inj_onI)
  fix p p' :: "int \<times> nat"
  assume p: "p \<in> {0..<128} \<times> {0..<4}" and p': "p' \<in> {0..<128} \<times> {0..<4}"
    and eq: "dense_scatter p = dense_scatter p'"
  obtain tid r where pr: "p = (tid, r)" by (cases p)
  obtain tid' r' where pr': "p' = (tid', r')" by (cases p')
  from p p' have b: "0 \<le> tid" "tid < 128" "r < 4" "0 \<le> tid'" "tid' < 128" "r' < 4"
    by (simp_all add: pr pr')
  note d = tid_digits [OF b(1,2)] and d' = tid_digits [OF b(4,5)]
  note s = slot_bounds [OF b(3)] and s' = slot_bounds [OF b(6)]
  from eq have e:
    "128 * (tid div 32) + (64 * int (r mod 2) + (8 * (tid mod 32 div 4) + (4 * int (r div 2) + tid mod 4))) =
     128 * (tid' div 32) + (64 * int (r' mod 2) + (8 * (tid' mod 32 div 4) + (4 * int (r' div 2) + tid' mod 4)))"
    by (simp only: pr pr' dense_scatter_digits [OF b(1,3)] dense_scatter_digits [OF b(4,6)])
  have u: "tid div 32 = tid' div 32 \<and> int (r mod 2) = int (r' mod 2) \<and>
      tid mod 32 div 4 = tid' mod 32 div 4 \<and> int (r div 2) = int (r' div 2) \<and> tid mod 4 = tid' mod 4"
    by (rule radix_dense_unique [OF s(1,2) d(4,5) s(3,4) d(6,7) s'(1,2) d'(4,5) s'(3,4) d'(6,7) e])
  have "tid = tid'"
    using d(1) d'(1) u by (simp only:)
  moreover have "r = r'"
    using u by (simp only: slot_digits)
  ultimately show "p = p'" by (simp only: pr pr')
qed

lemma dense_cells_eq: "dense_cells = 512"
  by (simp add: dense_cells_def dense_M_def dense_N_def c_div_nonneg)

lemma dense_scatter_range:
  assumes "p \<in> {0..<128} \<times> {0..<4}"
  shows "dense_scatter p \<in> {0..<dense_cells}"
proof -
  obtain tid r where pr: "p = (tid, r)" by (cases p)
  from assms have b: "0 \<le> tid" "tid < 128" "r < 4"
    by (simp_all add: pr)
  note d = tid_digits [OF b(1,2)] and s = slot_bounds [OF b(3)]
  note rb = radix_dense_bound [OF d(2,3) s(1,2) d(4,5) s(3,4) d(6,7)]
  show ?thesis
    using rb by (simp only: pr dense_scatter_digits [OF b(1,3)] dense_cells_eq atLeastLessThan_iff)
qed

lemma dense_scatter_image: "dense_scatter ` ({0..<128} \<times> {0..<4}) = {0..<dense_cells}"
proof (rule card_seteq)
  show "finite {0..<dense_cells}" by simp
  show "dense_scatter ` ({0..<128} \<times> {0..<4}) \<subseteq> {0..<dense_cells}"
    using dense_scatter_range by blast
  show "card {0..<dense_cells} \<le> card (dense_scatter ` ({0..<128} \<times> {0..<4}))"
    by (simp add: card_image [OF dense_scatter_inj] dense_cells_eq)
qed

lemma radix_sparse_unique:
  fixes w b g l w' b' g' l' :: int
  assumes "0 \<le> b" "b < 2" "0 \<le> g" "g < 8" "0 \<le> l" "l < 4"
    and "0 \<le> b'" "b' < 2" "0 \<le> g'" "g' < 8" "0 \<le> l'" "l' < 4"
    and e: "64 * w + (32 * b + (4 * g + l)) = 64 * w' + (32 * b' + (4 * g' + l'))"
  shows "w = w' \<and> b = b' \<and> g = g' \<and> l = l'"
proof -
  have w: "w = w'"
    and e1: "32 * b + (4 * g + l) = 32 * b' + (4 * g' + l')"
    using digit_unique [OF _ _ _ _ e] assms(1-12) by linarith+
  have b: "b = b'"
    and e2: "4 * g + l = 4 * g' + l'"
    using digit_unique [OF _ _ _ _ e1] assms(1-12) by linarith+
  have "g = g'" "l = l'"
    using digit_unique [OF _ _ _ _ e2] assms(1-12) by linarith+
  with w b show ?thesis by simp
qed

lemma radix_sparse_bound:
  fixes w b g l :: int
  assumes "0 \<le> w" "w < 4" "0 \<le> b" "b < 2" "0 \<le> g" "g < 8" "0 \<le> l" "l < 4"
  shows "0 \<le> 64 * w + (32 * b + (4 * g + l))"
    and "64 * w + (32 * b + (4 * g + l)) < 256"
  using assms by linarith+

lemma sparse_scatter_digits:
  assumes "0 \<le> tid" "r < 2"
  shows "sparse_scatter (tid, r) =
    64 * (tid div 32) + (32 * int r + (4 * (tid mod 32 div 4) + tid mod 4))"
proof -
  from assms(2) consider "r = 0" | "r = 1"
    by linarith
  then show ?thesis
    using assms(1)
    by cases
      (simp_all add: sparse_scatter_def sparse_store_offsets_def sparse_offset1_def
        sparse_offset2_def warp_id_eq group_id_eq lane_in_group_eq)
qed

lemma sparse_scatter_inj: "inj_on sparse_scatter ({0..<128} \<times> {0..<2})"
proof (rule inj_onI)
  fix p p' :: "int \<times> nat"
  assume p: "p \<in> {0..<128} \<times> {0..<2}" and p': "p' \<in> {0..<128} \<times> {0..<2}"
    and eq: "sparse_scatter p = sparse_scatter p'"
  obtain tid r where pr: "p = (tid, r)" by (cases p)
  obtain tid' r' where pr': "p' = (tid', r')" by (cases p')
  from p p' have b: "0 \<le> tid" "tid < 128" "r < 2" "0 \<le> tid'" "tid' < 128" "r' < 2"
    by (simp_all add: pr pr')
  note d = tid_digits [OF b(1,2)] and d' = tid_digits [OF b(4,5)]
  have s: "0 \<le> int r" "int r < 2" and s': "0 \<le> int r'" "int r' < 2"
    using b(3,6) by simp_all
  from eq have e:
    "64 * (tid div 32) + (32 * int r + (4 * (tid mod 32 div 4) + tid mod 4)) =
     64 * (tid' div 32) + (32 * int r' + (4 * (tid' mod 32 div 4) + tid' mod 4))"
    by (simp only: pr pr' sparse_scatter_digits [OF b(1,3)] sparse_scatter_digits [OF b(4,6)])
  have u: "tid div 32 = tid' div 32 \<and> int r = int r' \<and>
      tid mod 32 div 4 = tid' mod 32 div 4 \<and> tid mod 4 = tid' mod 4"
    by (rule radix_sparse_unique [OF s d(4,5) d(6,7) s' d'(4,5) d'(6,7) e])
  have "tid = tid'"
    using d(1) d'(1) u by (simp only:)
  moreover have "r = r'"
    using u by simp
  ultimately show "p = p'" by (simp only: pr pr')
qed

lemma sparse_cells_eq: "sparse_cells = 256"
  by (simp add: sparse_cells_def sparse_M_def sparse_N_def c_div_nonneg)

lemma sparse_scatter_range:
  assumes "p \<in> {0..<128} \<times> {0..<2}"
  shows "sparse_scatter p \<in> {0..<sparse_cells}"
proof -
  obtain tid r where pr: "p = (tid, r)" by (cases p)
  from assms have b: "0 \<le> tid" "tid < 128" "r < 2"
    by (simp_all add: pr)
  note d = tid_digits [OF b(1,2)]
  have s: "0 \<le> int r" "int r < 2"
    using b(3) by simp_all
  note rb = radix_sparse_bound [OF d(2,3) s d(4,5) d(6,7)]
  show ?thesis
    using rb by (simp only: pr sparse_scatter_digits [OF b(1,3)] sparse_cells_eq atLeastLessThan_iff)
qed

lemma sparse_scatter_image: "sparse_scatter ` ({0..<128} \<times> {0..<2}) = {0..<sparse_cells}"
proof (rule card_seteq)
  show "finite {0..<sparse_cells}" by simp
  show "sparse_scatter ` ({0..<128} \<times> {0..<2}) \<subseteq> {0..<sparse_cells}"
    using sparse_scatter_range by blast
  show "card {0..<sparse_cells} \<le> card (sparse_scatter ` ({0..<128} \<times> {0..<2}))"
    by (simp add: card_image [OF sparse_scatter_inj] sparse_cells_eq)
qed

lemma threads_per_block_eq: "threads_per_block = 128"
  by (simp add: threads_per_block_def)

section \<open>Result scatter is a bijection\<close>

text \<open>
  Claim C4. For each fixed kernel shape, the map from a thread index below 128 and an
  accumulator register slot to the 32-bit output offset the kernel stores that register
  at (\<open>offset1\<close>, \<open>offset2\<close>, and for the dense kernel also \<open>offset1 + 4\<close> and
  \<open>offset2 + 4\<close>) is a bijection onto the cells of the output tile: 512 cells for the
  dense 64x16 tile, 256 for the sparse 64x8 tile. No cell is written twice and none is
  left unwritten.
\<close>

theorem scatter_bijection:
  "bij_betw dense_scatter ({0..<threads_per_block} \<times> {0..<4}) {0..<dense_cells} \<and>
   bij_betw sparse_scatter ({0..<threads_per_block} \<times> {0..<2}) {0..<sparse_cells}"
  unfolding bij_betw_def threads_per_block_eq
  using dense_scatter_inj dense_scatter_image sparse_scatter_inj sparse_scatter_image
  by (intro conjI)

section \<open>Metadata loads stay inside the buffer\<close>

lemma to_uint_id: "0 \<le> x \<Longrightarrow> x < 4294967296 \<Longrightarrow> to_uint x = nat x"
  by (simp add: to_uint_def)

lemma metadata_size_eq: "metadata_size = 128"
  by (simp add: metadata_size_def sparse_M_def sparse_K_def c_div_nonneg)

lemma metadata_bound:
  fixes w h g :: int
  assumes "0 \<le> w" "w < 4" "0 \<le> h" "h < 2" "0 \<le> g" "g < 8"
  shows "0 \<le> w * 8 * 4 + h * 8 + g" "w * 8 * 4 + h * 8 + g < 112"
    "0 \<le> w * 8 * 4 + 8 * 2 + h * 8 + g" "w * 8 * 4 + 8 * 2 + h * 8 + g < 128"
    "w * 8 * 4 + 8 * 2 + h * 8 + g = (w * 8 * 4 + h * 8 + g) + 16"
  using assms by linarith+

lemma metadata_offsets:
  assumes "0 \<le> tid" "tid < 128"
  shows "metadata_offset_1 tid < 112"
    and "metadata_offset_2 tid < 128"
    and "metadata_offset_2 tid = metadata_offset_1 tid + 16"
proof -
  note d = tid_digits [OF assms]
  have h: "0 \<le> tid mod 2" "tid mod 2 < 2"
    by simp_all
  note m = metadata_bound [OF d(2,3) h d(4,5)]
  have o1: "metadata_offset_1 tid = nat (tid div 32 * 8 * 4 + tid mod 2 * 8 + tid mod 32 div 4)"
    unfolding metadata_offset_1_def warp_id_eq [OF assms(1)] group_id_eq [OF assms(1)]
      lane_in_work_group_eq [OF assms(1)]
    using m(1,2) by (intro to_uint_id) linarith+
  have o2: "metadata_offset_2 tid =
      nat (tid div 32 * 8 * 4 + 8 * 2 + tid mod 2 * 8 + tid mod 32 div 4)"
    unfolding metadata_offset_2_def warp_id_eq [OF assms(1)] group_id_eq [OF assms(1)]
      lane_in_work_group_eq [OF assms(1)]
    using m(3,4) by (intro to_uint_id) linarith+
  show "metadata_offset_1 tid < 112"
    unfolding o1 using m(1,2) by linarith
  show "metadata_offset_2 tid < 128"
    unfolding o2 using m(3,4) by linarith
  show "metadata_offset_2 tid = metadata_offset_1 tid + 16"
    unfolding o1 o2 using m(1,5) by linarith
qed

text \<open>
  Claim C10. In the sparse kernel every load from \<open>metadata_array\<close> is in bounds: for
  every thread index in [0,128), both metadata offsets are below the allocated size
  \<open>(M / 16) * (K / 16) * 8 = 128\<close>, so both loads return the word stored there.
\<close>

theorem metadata_loads_in_bounds:
  assumes "0 \<le> tid" "tid < threads_per_block"
    and "int (length metadata_array) = metadata_size"
  shows "int (metadata_offset_1 tid) < metadata_size \<and>
    int (metadata_offset_2 tid) < metadata_size \<and>
    load_u32 metadata_array (metadata_offset_1 tid) =
      Some (metadata_array ! metadata_offset_1 tid) \<and>
    load_u32 metadata_array (metadata_offset_2 tid) =
      Some (metadata_array ! metadata_offset_2 tid)"
proof -
  from assms(2) have t: "tid < 128"
    by (simp add: threads_per_block_eq)
  note o = metadata_offsets [OF assms(1) t]
  from assms(3) have n: "length metadata_array = 128"
    by (simp add: metadata_size_eq)
  show ?thesis
    using o(1,2) by (simp add: load_u32_def n metadata_size_eq)
qed

theorem metadata_loads_in_bounds_witness:
  "(0::int) \<le> 127 \<and> 127 < threads_per_block \<and>
   int (length (replicate 128 (0::u32))) = metadata_size \<and>
   int (metadata_offset_2 127) < metadata_size \<and>
   load_u32 (replicate 128 0) (metadata_offset_2 127) =
     Some (replicate 128 (0::u32) ! metadata_offset_2 127)"
  using metadata_loads_in_bounds [of 127 "replicate 128 (0::u32)"]
  by (simp add: threads_per_block_eq metadata_size_eq)

section \<open>The add-one kernel changes the second tile only\<close>

text \<open>With 128 threads the loop of a thread runs once: thread \<open>i\<close> touches element \<open>i\<close> of the tile.\<close>

lemma add_one_loop_thread:
  assumes "0 \<le> tid" "tid < 128"
  shows "add_one_loop 128 tid tile =
    (if tid < tile_size then tile[nat tid := tile ! nat tid + 1] else tile)"
proof -
  have stop: "add_one_loop 128 (tid + 128) t = t" for t
    using assms by (subst add_one_loop.simps) (simp add: array_size_def)
  show ?thesis
    using assms by (subst add_one_loop.simps) (simp add: array_size_def stop)
qed

lemma length_add_one_loop:
  assumes "0 \<le> tid" "tid < 128"
  shows "length (add_one_loop 128 tid tile) = length tile"
  unfolding add_one_loop_thread [OF assms] by simp

lemma length_fold_add_one:
  assumes "set sched \<subseteq> {0..<128}"
  shows "length (fold (add_one_loop 128) sched tile) = length tile"
  using assms
proof (induction sched arbitrary: tile)
  case Nil
  show ?case by simp
next
  case (Cons t ts)
  then have t: "0 \<le> t" "t < 128" and ts: "set ts \<subseteq> {0..<128}"
    by simp_all
  have "length (fold (add_one_loop 128) (t # ts) tile) =
      length (fold (add_one_loop 128) ts (add_one_loop 128 t tile))"
    by simp
  also have "\<dots> = length (add_one_loop 128 t tile)"
    by (rule Cons.IH [OF ts])
  also have "\<dots> = length tile"
    by (rule length_add_one_loop [OF t])
  finally show ?case .
qed

lemma nth_fold_add_one:
  assumes "distinct sched" "set sched \<subseteq> {0..<128}" "k < length tile"
    and "int (length tile) \<le> tile_size"
  shows "fold (add_one_loop 128) sched tile ! k =
    (if int k \<in> set sched then tile ! k + 1 else tile ! k)"
  using assms
proof (induction sched arbitrary: tile)
  case Nil
  show ?case by simp
next
  case (Cons t ts)
  let ?tile = "add_one_loop 128 t tile"
  from Cons.prems have t: "0 \<le> t" "t < 128" "t \<notin> set ts"
    and ts: "distinct ts" "set ts \<subseteq> {0..<128}"
    by simp_all
  have step: "?tile = (if t < tile_size then tile[nat t := tile ! nat t + 1] else tile)"
    by (rule add_one_loop_thread [OF t(1,2)])
  then have len: "length ?tile = length tile"
    by simp
  have ih: "fold (add_one_loop 128) ts ?tile ! k =
      (if int k \<in> set ts then ?tile ! k + 1 else ?tile ! k)"
    using Cons.prems(3,4) by (intro Cons.IH ts) (simp_all only: len)
  show ?case
  proof (cases "int k = t")
    case True
    have "int k < tile_size"
      using Cons.prems(3,4) by linarith
    with True have tk: "t < tile_size" "nat t = k"
      by auto
    have "?tile ! k = tile ! k + 1"
      unfolding step using tk Cons.prems(3) by simp
    moreover have "int k \<notin> set ts"
      using True t(3) by simp
    ultimately show ?thesis
      using ih True by simp
  next
    case False
    then have "nat t \<noteq> k"
      using t(1) by auto
    then have "?tile ! k = tile ! k"
      unfolding step by simp
    with ih False show ?thesis
      by auto
  qed
qed

lemma h_data_length: "length h_data = 128"
  unfolding h_data_def array_size_def by (simp only: length_map length_upto)

lemma h_data_nth: "i < 128 \<Longrightarrow> h_data ! i = of_int (int i)"
  unfolding h_data_def array_size_def
  by (simp del: upto_rec_numeral)

lemma second_tile_load:
  "cp_async_bulk_tensor_1d_global_to_shared (create_1d_tensor_map array_size tile_size)
     h_data tile_size = Some (take 16 (drop 16 h_data))"
  by (simp add: cp_async_bulk_tensor_1d_global_to_shared_def tile_inside_def
      create_1d_tensor_map_def array_size_def tile_size_def h_data_length)

lemma second_tile_store:
  assumes "length tile = 16"
  shows "cp_async_bulk_tensor_1d_shared_to_global (create_1d_tensor_map array_size tile_size)
     h_data tile_size tile = Some (take 16 h_data @ tile @ drop 32 h_data)"
  using assms
  by (simp add: cp_async_bulk_tensor_1d_shared_to_global_def tile_inside_def
      create_1d_tensor_map_def array_size_def tile_size_def h_data_length)

lemma second_tile_updated:
  assumes "distinct sched" "set sched = {0..<128}"
  shows "length (fold (add_one_loop 128) sched (take 16 (drop 16 h_data))) = 16"
    and "k < 16 \<Longrightarrow>
      fold (add_one_loop 128) sched (take 16 (drop 16 h_data)) ! k = of_int (int k + 16) + 1"
proof -
  let ?tile = "take 16 (drop 16 h_data)"
  have len: "length ?tile = 16"
    by (simp add: h_data_length)
  from assms(2) have sub: "set sched \<subseteq> {0..<128}"
    by simp
  show "length (fold (add_one_loop 128) sched ?tile) = 16"
    by (simp only: length_fold_add_one [OF sub] len)
  assume k: "k < 16"
  then have "int k \<in> set sched"
    using assms(2) by simp
  moreover have "?tile ! k = of_int (int k + 16)"
  proof -
    have "?tile ! k = drop 16 h_data ! k"
      using k by simp
    also have "\<dots> = h_data ! (16 + k)"
      using k by (intro nth_drop) (simp add: h_data_length)
    also have "\<dots> = of_int (int (16 + k))"
      using k by (intro h_data_nth) simp
    finally show ?thesis
      by (simp add: add.commute)
  qed
  moreover have "fold (add_one_loop 128) sched ?tile ! k =
      (if int k \<in> set sched then ?tile ! k + 1 else ?tile ! k)"
    using k by (intro nth_fold_add_one assms(1) sub) (simp_all add: h_data_length tile_size_def)
  ultimately show "fold (add_one_loop 128) sched ?tile ! k = of_int (int k + 16) + 1"
    by simp
qed

text \<open>
  Claim C5. In the copy-only scenario, a 128-element global array holds \<open>i\<close> at index
  \<open>i\<close>; the kernel runs with tile coordinate 16 and 128 threads, in whatever order
  the threads take their turn. Afterwards exactly the elements at indices 16 to 31 are
  incremented by 1 and every other element still holds \<open>i\<close>.
\<close>

theorem add_one_changes_second_tile:
  assumes "distinct sched" "set sched = {0..<128}"
  shows "add_one_main sched =
    Some (map (\<lambda>i. if tile_size \<le> i \<and> i < 2 * tile_size then of_int i + 1 else of_int i)
            [0..array_size - 1])"
proof -
  let ?tile = "fold (add_one_loop 128) sched (take 16 (drop 16 h_data))"
  let ?out = "take 16 h_data @ ?tile @ drop 32 h_data"
  let ?want = "map (\<lambda>i. if tile_size \<le> i \<and> i < 2 * tile_size then of_int i + 1 else of_int i)
            [0..array_size - 1] :: i32 list"
  note u = second_tile_updated [OF assms]
  have run: "add_one_main sched = Some ?out"
    by (simp add: add_one_main_def add_one_kernel_def create_1d_tensor_map_def
        second_tile_load [unfolded create_1d_tensor_map_def]
        second_tile_store [OF u(1), unfolded create_1d_tensor_map_def])
  have "?out = ?want"
  proof (rule nth_equalityI)
    show "length ?out = length ?want"
      by (simp add: u(1) h_data_length array_size_def del: upto_rec_numeral)
  next
    fix i
    assume "i < length ?out"
    then have i: "i < 128"
      by (simp add: u(1) h_data_length)
    have want: "?want ! i = (if 16 \<le> i \<and> i < 32 then of_int (int i) + 1 else of_int (int i))"
      using i by (simp add: array_size_def tile_size_def del: upto_rec_numeral)
    consider "i < 16" | "16 \<le> i" "i < 32" | "32 \<le> i"
      by linarith
    then have "?out ! i = (if 16 \<le> i \<and> i < 32 then of_int (int i) + 1 else of_int (int i))"
    proof cases
      case 1
      then show ?thesis
        by (simp add: nth_append h_data_length h_data_nth)
    next
      case 2
      then have j: "\<not> i < 16" "i - 16 < 16"
        by linarith+
      have "?out ! i = (?tile @ drop 32 h_data) ! (i - 16)"
        using j(1) by (simp add: nth_append h_data_length)
      also have "\<dots> = ?tile ! (i - 16)"
        using j(2) by (simp only: nth_append u(1) if_True)
      finally have "?out ! i = ?tile ! (i - 16)" .
      also have "\<dots> = of_int (int (i - 16) + 16) + 1"
        using 2 by (intro u(2)) simp
      finally show ?thesis
        using 2 by (simp add: of_nat_diff)
    next
      case 3
      then have j: "\<not> i < 16" "\<not> i - 16 < 16" "i - 16 - 16 = i - 32" "32 + (i - 32) = i"
        by linarith+
      have "?out ! i = (?tile @ drop 32 h_data) ! (i - 16)"
        using j(1) by (simp add: nth_append h_data_length)
      also have "\<dots> = drop 32 h_data ! (i - 32)"
        using j(2,3) by (simp only: nth_append u(1) if_False)
      also have "\<dots> = h_data ! (32 + (i - 32))"
        by (rule nth_drop) (simp add: h_data_length)
      finally have "?out ! i = h_data ! i"
        by (simp only: j(4))
      then show ?thesis
        using 3 i by (simp add: h_data_nth)
    qed
    with want show "?out ! i = ?want ! i"
      by simp
  qed
  with run show ?thesis
    by simp
qed

theorem add_one_changes_second_tile_witness:
  "distinct [0..127] \<and> set [0..127] = {0..<128} \<and>
   add_one_main [0..127] =
    Some (map (\<lambda>i. if tile_size \<le> i \<and> i < 2 * tile_size then of_int i + 1 else of_int i)
            [0..array_size - 1])"
proof -
  have d: "distinct [0..127::int]"
    by (simp only: distinct_upto)
  have s: "set [0..127] = {0..<128::int}"
    by (simp only: set_upto) auto
  from add_one_changes_second_tile [OF d s] d s show ?thesis
    by (simp only:) 
qed

section \<open>The instruction streams of the two compute kernels\<close>

text \<open>
  With its two metadata loads in bounds the sparse kernel has an instruction stream;
  the lemmas list the descriptors it builds, the multiplies it issues, what touches the
  accumulator and what the accumulator holds at the stores.
\<close>

lemma sparse_kernel_loaded:
  assumes "0 \<le> tid" "tid < 128" "length metadata_array = 128"
  shows "load_u32 metadata_array (metadata_offset_1 tid) =
      Some (metadata_array ! metadata_offset_1 tid)"
    and "load_u32 metadata_array (metadata_offset_2 tid) =
      Some (metadata_array ! metadata_offset_2 tid)"
  using metadata_offsets [OF assms(1,2)] assms(3) by (simp_all add: load_u32_def)

lemma sparse_kernel_stream:
  assumes "0 \<le> tid" "tid < 128" "length metadata_array = 128"
  shows "\<exists>es. sparse_kernel metadata_array tid = Some es \<and>
    builds es =
      [Make_desc (Ptr A_shared 0) 8 32 2, Make_desc (Ptr B_shared 0) 8 16 0,
       Make_desc (Ptr A_shared (c_div sparse_K_A 2)) 8 32 2,
       Make_desc (Ptr B_shared (32 * sparse_N)) 8 8 0] \<and>
    issues es =
      [sparse_issue (Make_desc (Ptr A_shared 0) 8 32 2) (Make_desc (Ptr B_shared 0) 8 16 0)
         (metadata_array ! metadata_offset_1 tid),
       sparse_issue (Make_desc (Ptr A_shared (c_div sparse_K_A 2)) 8 32 2)
         (Make_desc (Ptr B_shared (32 * sparse_N)) 8 8 0)
         (metadata_array ! metadata_offset_2 tid)] \<and>
    metadata_loads es = [metadata_offset_1 tid, metadata_offset_2 tid] \<and>
    filter touches_acc es =
      [Acc_init 2, Wgmma (issues es ! 0), Wgmma (issues es ! 1),
       Store_C (sparse_offset1 tid) 0, Store_C (sparse_offset2 tid) 1] \<and>
    filter (\<lambda>e. is_issue e \<or> e = Commit_batch) es =
      [Wgmma (issues es ! 0), Wgmma (issues es ! 1), Commit_batch] \<and>
    (\<forall>hw c. final_acc hw tid es c = hw (issues es ! 1) tid (hw (issues es ! 0) tid (replicate 2 0))) \<and>
    (\<forall>hw c. thread_writes hw tid es c =
       [(sparse_offset1 tid, final_acc hw tid es c ! 0),
        (sparse_offset2 tid, final_acc hw tid es c ! 1)])"
  by (simp add: sparse_kernel_def sparse_kernel_loaded [OF assms] Let_def load_tiles_def)

lemma dense_kernel_stream:
  "builds (dense_kernel tid) = [Make_desc_a (Ptr A_shared 0) 3, Make_desc_b (Ptr B_shared 0) 3] \<and>
   issues (dense_kernel tid) =
     [dense_issue (Make_desc_a (Ptr A_shared 0) 3) (Make_desc_b (Ptr B_shared 0) 3)] \<and>
   filter touches_acc (dense_kernel tid) =
     [Acc_init 4, Wgmma (issues (dense_kernel tid) ! 0),
      Store_C (dense_offset1 tid) 0, Store_C (dense_offset2 tid) 1,
      Store_C (dense_offset1 tid + 4) 2, Store_C (dense_offset2 tid + 4) 3] \<and>
   filter (\<lambda>e. is_issue e \<or> e = Commit_batch) (dense_kernel tid) =
     [Wgmma (issues (dense_kernel tid) ! 0), Commit_batch] \<and>
   (\<forall>hw c. final_acc hw tid (dense_kernel tid) c =
      hw (issues (dense_kernel tid) ! 0) tid (replicate 4 0)) \<and>
   (\<forall>hw c. thread_writes hw tid (dense_kernel tid) c =
      [(dense_offset1 tid, final_acc hw tid (dense_kernel tid) c ! 0),
       (dense_offset2 tid, final_acc hw tid (dense_kernel tid) c ! 1),
       (dense_offset1 tid + 4, final_acc hw tid (dense_kernel tid) c ! 2),
       (dense_offset2 tid + 4, final_acc hw tid (dense_kernel tid) c ! 3)])"
  by (simp add: dense_kernel_def Let_def load_tiles_def)

lemma launch_bounds:
  assumes "0 \<le> tid" "tid < threads_per_block" "int (length metadata_array) = metadata_size"
  shows "tid < 128" "length metadata_array = 128"
  using assms by (simp_all add: threads_per_block_eq metadata_size_eq)

section \<open>Two sparse multiplies cover K = 64\<close>

text \<open>
  Claim C6. In the sparse kernel exactly two sparse multiplies are issued, one after the
  other, and together they cover a K extent of 64: each has shape k32, so each addresses
  a K-sub-tile 32 wide, stored as \<open>K_A / 2 = 16\<close> columns of the compressed buffer. The
  two use separately built descriptors, with base pointers \<open>A_shared\<close> and
  \<open>A_shared + K_A / 2\<close>, and separately indexed metadata words, at offsets that differ
  by \<open>8 * 2\<close>. Both have scale-d 1 and accumulate into the same registers, zeroed
  before the first, and both are issued before the one commit-batch.
\<close>

theorem sparse_two_subtile_issues:
  assumes "0 \<le> tid" "tid < threads_per_block"
    and "int (length metadata_array) = metadata_size"
  shows "\<exists>es i1 i2.
    sparse_kernel metadata_array tid = Some es \<and>
    issues es = [i1, i2] \<and>
    sp i1 \<and> sp i2 \<and> shape_k i1 = 32 \<and> shape_k i2 = 32 \<and>
    shape_k i1 + shape_k i2 = sparse_K \<and>
    builds es = [desc_a i1, desc_b i1, desc_a i2, desc_b i2] \<and>
    desc_a i1 \<noteq> desc_a i2 \<and> desc_b i1 \<noteq> desc_b i2 \<and>
    desc_ptr (desc_a i1) = Ptr A_shared 0 \<and>
    desc_ptr (desc_a i2) = Ptr A_shared (c_div sparse_K_A 2) \<and>
    elems (desc_ptr (desc_a i2)) = elems (desc_ptr (desc_a i1)) + c_div (shape_k i1) 2 \<and>
    c_div (shape_k i1) 2 + c_div (shape_k i2) 2 = sparse_K_A \<and>
    metadata_loads es = [metadata_offset_1 tid, metadata_offset_2 tid] \<and>
    metadata_offset_2 tid = metadata_offset_1 tid + 8 * 2 \<and>
    sp_meta i1 = Some (metadata_array ! metadata_offset_1 tid) \<and>
    sp_meta i2 = Some (metadata_array ! metadata_offset_2 tid) \<and>
    scale_d i1 = 1 \<and> scale_d i2 = 1 \<and>
    filter (\<lambda>e. is_issue e \<or> e = Commit_batch) es = [Wgmma i1, Wgmma i2, Commit_batch] \<and>
    (\<forall>hw c. final_acc hw tid es c = hw i2 tid (hw i1 tid (replicate 2 0)))"
proof -
  note b = launch_bounds [OF assms]
  from sparse_kernel_stream [OF assms(1) b] obtain es where
    es: "sparse_kernel metadata_array tid = Some es"
    and bs: "builds es =
      [Make_desc (Ptr A_shared 0) 8 32 2, Make_desc (Ptr B_shared 0) 8 16 0,
       Make_desc (Ptr A_shared (c_div sparse_K_A 2)) 8 32 2,
       Make_desc (Ptr B_shared (32 * sparse_N)) 8 8 0]"
    and iss: "issues es =
      [sparse_issue (Make_desc (Ptr A_shared 0) 8 32 2) (Make_desc (Ptr B_shared 0) 8 16 0)
         (metadata_array ! metadata_offset_1 tid),
       sparse_issue (Make_desc (Ptr A_shared (c_div sparse_K_A 2)) 8 32 2)
         (Make_desc (Ptr B_shared (32 * sparse_N)) 8 8 0)
         (metadata_array ! metadata_offset_2 tid)]"
    and ml: "metadata_loads es = [metadata_offset_1 tid, metadata_offset_2 tid]"
    and cb: "filter (\<lambda>e. is_issue e \<or> e = Commit_batch) es =
      [Wgmma (issues es ! 0), Wgmma (issues es ! 1), Commit_batch]"
    and fa: "\<forall>hw c. final_acc hw tid es c =
      hw (issues es ! 1) tid (hw (issues es ! 0) tid (replicate 2 0))"
    by blast
  have k: "c_div 32 2 = 16" "c_div sparse_K_A 2 = 16" "sparse_K = 64" "sparse_K_A = 32"
    by (simp_all add: sparse_K_A_def sparse_K_def c_div_nonneg)
  show ?thesis
    using es bs iss ml cb fa metadata_offsets(3) [OF assms(1) b(1)]
    by (simp add: sparse_issue_def k)
qed

theorem sparse_two_subtile_issues_witness:
  "(0::int) \<le> 5 \<and> 5 < threads_per_block \<and>
   int (length (replicate 128 (0::u32))) = metadata_size \<and>
   (\<exists>es i1 i2.
    sparse_kernel (replicate 128 0) 5 = Some es \<and>
    issues es = [i1, i2] \<and>
    shape_k i1 + shape_k i2 = sparse_K \<and>
    desc_ptr (desc_a i1) = Ptr A_shared 0 \<and>
    desc_ptr (desc_a i2) = Ptr A_shared (c_div sparse_K_A 2) \<and>
    metadata_loads es = [metadata_offset_1 5, metadata_offset_2 5] \<and>
    metadata_offset_2 5 = metadata_offset_1 5 + 8 * 2 \<and>
    filter (\<lambda>e. is_issue e \<or> e = Commit_batch) es = [Wgmma i1, Wgmma i2, Commit_batch])"
proof -
  have h: "(0::int) \<le> 5" "5 < threads_per_block"
    "int (length (replicate 128 (0::u32))) = metadata_size"
    by (simp_all add: threads_per_block_eq metadata_size_eq)
  from sparse_two_subtile_issues [OF h] h show ?thesis
    by blast
qed

section \<open>The accumulator\<close>

text \<open>
  Claim C7. In both compute kernels the accumulator is 4 registers of the thread for the
  dense m64n16k16 shape and 2 for the sparse m64n8k32 shape. It is zeroed before the
  first multiply, every multiply has scale-d 1 and so adds to it (D = D + A*B), and after
  the multiplies each register is read once, by the store of the result scatter that
  writes it to the output; nothing else names the accumulator.
\<close>

theorem accumulator_discipline:
  assumes "0 \<le> tid" "tid < threads_per_block"
    and "int (length metadata_array) = metadata_size"
  shows "(\<exists>i.
      filter touches_acc (dense_kernel tid) =
        [Acc_init 4, Wgmma i,
         Store_C (dense_offset1 tid) 0, Store_C (dense_offset2 tid) 1,
         Store_C (dense_offset1 tid + 4) 2, Store_C (dense_offset2 tid + 4) 3] \<and>
      shape_m i = 64 \<and> shape_n i = 16 \<and> shape_k i = 16 \<and> \<not> sp i \<and> scale_d i = 1 \<and>
      (\<forall>hw c. final_acc hw tid (dense_kernel tid) c = hw i tid (replicate 4 0)) \<and>
      (\<forall>hw c. thread_writes hw tid (dense_kernel tid) c =
         [(dense_offset1 tid, hw i tid (replicate 4 0) ! 0),
          (dense_offset2 tid, hw i tid (replicate 4 0) ! 1),
          (dense_offset1 tid + 4, hw i tid (replicate 4 0) ! 2),
          (dense_offset2 tid + 4, hw i tid (replicate 4 0) ! 3)])) \<and>
    (\<exists>es i1 i2.
      sparse_kernel metadata_array tid = Some es \<and>
      filter touches_acc es =
        [Acc_init 2, Wgmma i1, Wgmma i2,
         Store_C (sparse_offset1 tid) 0, Store_C (sparse_offset2 tid) 1] \<and>
      shape_m i1 = 64 \<and> shape_n i1 = 8 \<and> shape_k i1 = 32 \<and> sp i1 \<and> scale_d i1 = 1 \<and>
      shape_m i2 = 64 \<and> shape_n i2 = 8 \<and> shape_k i2 = 32 \<and> sp i2 \<and> scale_d i2 = 1 \<and>
      (\<forall>hw c. final_acc hw tid es c = hw i2 tid (hw i1 tid (replicate 2 0))) \<and>
      (\<forall>hw c. thread_writes hw tid es c =
         [(sparse_offset1 tid, hw i2 tid (hw i1 tid (replicate 2 0)) ! 0),
          (sparse_offset2 tid, hw i2 tid (hw i1 tid (replicate 2 0)) ! 1)]))"
proof (rule conjI)
  let ?i = "dense_issue (Make_desc_a (Ptr A_shared 0) 3) (Make_desc_b (Ptr B_shared 0) 3)"
  have "issues (dense_kernel tid) ! 0 = ?i"
    using dense_kernel_stream [of tid] by simp
  with dense_kernel_stream [of tid]
  show "\<exists>i.
      filter touches_acc (dense_kernel tid) =
        [Acc_init 4, Wgmma i,
         Store_C (dense_offset1 tid) 0, Store_C (dense_offset2 tid) 1,
         Store_C (dense_offset1 tid + 4) 2, Store_C (dense_offset2 tid + 4) 3] \<and>
      shape_m i = 64 \<and> shape_n i = 16 \<and> shape_k i = 16 \<and> \<not> sp i \<and> scale_d i = 1 \<and>
      (\<forall>hw c. final_acc hw tid (dense_kernel tid) c = hw i tid (replicate 4 0)) \<and>
      (\<forall>hw c. thread_writes hw tid (dense_kernel tid) c =
         [(dense_offset1 tid, hw i tid (replicate 4 0) ! 0),
          (dense_offset2 tid, hw i tid (replicate 4 0) ! 1),
          (dense_offset1 tid + 4, hw i tid (replicate 4 0) ! 2),
          (dense_offset2 tid + 4, hw i tid (replicate 4 0) ! 3)])"
    by (intro exI [of _ ?i]) (simp add: dense_issue_def)
next
  note b = launch_bounds [OF assms]
  let ?i1 = "sparse_issue (Make_desc (Ptr A_shared 0) 8 32 2) (Make_desc (Ptr B_shared 0) 8 16 0)
         (metadata_array ! metadata_offset_1 tid)"
  let ?i2 = "sparse_issue (Make_desc (Ptr A_shared (c_div sparse_K_A 2)) 8 32 2)
         (Make_desc (Ptr B_shared (32 * sparse_N)) 8 8 0)
         (metadata_array ! metadata_offset_2 tid)"
  from sparse_kernel_stream [OF assms(1) b] obtain es where
    es: "sparse_kernel metadata_array tid = Some es"
    and iss: "issues es = [?i1, ?i2]"
    and ta: "filter touches_acc es =
      [Acc_init 2, Wgmma (issues es ! 0), Wgmma (issues es ! 1),
       Store_C (sparse_offset1 tid) 0, Store_C (sparse_offset2 tid) 1]"
    and fa: "\<forall>hw c. final_acc hw tid es c =
      hw (issues es ! 1) tid (hw (issues es ! 0) tid (replicate 2 0))"
    and tw: "\<forall>hw c. thread_writes hw tid es c =
       [(sparse_offset1 tid, final_acc hw tid es c ! 0),
        (sparse_offset2 tid, final_acc hw tid es c ! 1)]"
    by blast
  show "\<exists>es i1 i2.
      sparse_kernel metadata_array tid = Some es \<and>
      filter touches_acc es =
        [Acc_init 2, Wgmma i1, Wgmma i2,
         Store_C (sparse_offset1 tid) 0, Store_C (sparse_offset2 tid) 1] \<and>
      shape_m i1 = 64 \<and> shape_n i1 = 8 \<and> shape_k i1 = 32 \<and> sp i1 \<and> scale_d i1 = 1 \<and>
      shape_m i2 = 64 \<and> shape_n i2 = 8 \<and> shape_k i2 = 32 \<and> sp i2 \<and> scale_d i2 = 1 \<and>
      (\<forall>hw c. final_acc hw tid es c = hw i2 tid (hw i1 tid (replicate 2 0))) \<and>
      (\<forall>hw c. thread_writes hw tid es c =
         [(sparse_offset1 tid, hw i2 tid (hw i1 tid (replicate 2 0)) ! 0),
          (sparse_offset2 tid, hw i2 tid (hw i1 tid (replicate 2 0)) ! 1)])"
    using es iss ta fa tw
    by (intro exI [of _ es] exI [of _ ?i1] exI [of _ ?i2]) (simp add: sparse_issue_def)
qed

theorem accumulator_discipline_witness:
  "(0::int) \<le> 37 \<and> 37 < threads_per_block \<and>
   int (length (replicate 128 (0::u32))) = metadata_size \<and>
   (\<exists>i.
      filter touches_acc (dense_kernel 37) =
        [Acc_init 4, Wgmma i,
         Store_C (dense_offset1 37) 0, Store_C (dense_offset2 37) 1,
         Store_C (dense_offset1 37 + 4) 2, Store_C (dense_offset2 37 + 4) 3] \<and>
      scale_d i = 1) \<and>
   (\<exists>es i1 i2.
      sparse_kernel (replicate 128 0) 37 = Some es \<and>
      filter touches_acc es =
        [Acc_init 2, Wgmma i1, Wgmma i2,
         Store_C (sparse_offset1 37) 0, Store_C (sparse_offset2 37) 1] \<and>
      scale_d i1 = 1 \<and> scale_d i2 = 1)"
proof -
  have h: "(0::int) \<le> 37" "37 < threads_per_block"
    "int (length (replicate 128 (0::u32))) = metadata_size"
    by (simp_all add: threads_per_block_eq metadata_size_eq)
  from accumulator_discipline [OF h] h show ?thesis
    by blast
qed

section \<open>Alignment of descriptor base pointers\<close>

text \<open>
  As stated, claim C8 asks that every base pointer passed to a descriptor build has the
  alignment its swizzle selector requires, 128 bytes when a swizzle mode is selected.
  Two builds do not have it. The second A descriptor of the sparse kernel is built with
  selector 2 on \<open>A_shared + K_A / 2\<close>, 32 bytes past the 128-byte aligned buffer. The B
  descriptor of the dense kernel is built with selector 3 on \<open>B_shared\<close>, a buffer
  declared with 16-byte alignment only, so a placement that respects the declarations
  can put it off every 128-byte boundary.
\<close>

theorem descriptor_alignment_fails:
  "placed example_base \<and>
   sparse_descs_aligned example_base (replicate 128 0) 0 = Some False \<and>
   placed dense_b_base \<and>
   \<not> dense_descs_aligned dense_b_base 0"
proof -
  have h: "(0::int) \<le> 0" "(0::int) < 128" "length (replicate 128 (0::u32)) = 128"
    by simp_all
  from sparse_kernel_stream [OF h] obtain es where
    es: "sparse_kernel (replicate 128 0) 0 = Some es"
    and bs: "builds es =
      [Make_desc (Ptr A_shared 0) 8 32 2, Make_desc (Ptr B_shared 0) 8 16 0,
       Make_desc (Ptr A_shared (c_div sparse_K_A 2)) 8 32 2,
       Make_desc (Ptr B_shared (32 * sparse_N)) 8 8 0]"
    by blast
  have k: "c_div sparse_K_A 2 = 16" "sparse_N = 8"
    by (simp_all add: sparse_K_A_def sparse_N_def c_div_nonneg)
  have sparse: "placed example_base \<and>
      sparse_descs_aligned example_base (replicate 128 0) 0 = Some False"
    by (simp add: es bs k placed_def sparse_descs_aligned_def desc_aligned_def address_of_def
        required_alignment_def sizeof_half_def)
  have db: "builds (dense_kernel 0) =
      [Make_desc_a (Ptr A_shared 0) 3, Make_desc_b (Ptr B_shared 0) 3]"
    using dense_kernel_stream [of 0] by simp
  have dense: "placed dense_b_base \<and> \<not> dense_descs_aligned dense_b_base 0"
    by (simp add: db placed_def dense_descs_aligned_def desc_aligned_def address_of_def
        required_alignment_def sizeof_half_def)
  from sparse dense show ?thesis
    by (simp only: simp_thms)
qed

lemma aligned_offset:
  fixes a :: int
  assumes "a mod 128 = 0"
  shows "(a + 32) mod 128 = 32" "(a + 32) mod 32 = 0" "a mod 32 = 0"
proof -
  from assms obtain q where a: "a = 128 * q"
    by (metis mult_div_mod_eq add.right_neutral)
  show "(a + 32) mod 128 = 32"
    unfolding a by simp
  have "a + 32 = 32 * (4 * q + 1)"
    unfolding a by simp
  then show "(a + 32) mod 32 = 0"
    by simp
  have "a = 32 * (4 * q)"
    unfolding a by simp
  then show "a mod 32 = 0"
    by simp
qed

lemma aligned16_offset:
  fixes b :: int
  assumes "b mod 16 = 0"
  shows "(b + 512) mod 16 = 0"
proof -
  from assms obtain q where b: "b = 16 * q"
    by (metis mult_div_mod_eq add.right_neutral)
  have "b + 512 = 16 * (q + 32)"
    unfolding b by simp
  then show ?thesis
    by simp
qed

text \<open>
  Claim C8, amended. With the buffers placed as declared, the base pointer passed to a
  descriptor build has the alignment its swizzle selector requires, 128 bytes when a
  swizzle mode is selected and 16 bytes when swizzle is none, for the dense A descriptor
  (selector 3 on \<open>A_shared\<close>) and for the sparse descriptors built on \<open>A_shared\<close>
  (selector 2), on \<open>B_shared\<close> and on \<open>B_shared + 32 * N\<close> (selector 0). The second
  sparse A descriptor, selector 2 on \<open>A_shared + K_A / 2\<close>, addresses the second
  K-sub-tile inside the buffer: it lies 32 bytes past a 128-byte boundary, 32-byte
  aligned and not 128-byte aligned. Nothing is said of the dense B descriptor.
\<close>

theorem descriptor_base_alignment:
  assumes "placed base" "0 \<le> tid" "tid < threads_per_block"
    and "int (length metadata_array) = metadata_size"
  shows "(\<exists>da db.
      builds (dense_kernel tid) = [da, db] \<and>
      desc_ptr da = Ptr A_shared 0 \<and> swizzle_mode da = 3 \<and>
      address_of base (desc_ptr da) mod 128 = 0 \<and> desc_aligned base da) \<and>
    (\<exists>es a1 b1 a2 b2.
      sparse_kernel metadata_array tid = Some es \<and>
      builds es = [a1, b1, a2, b2] \<and>
      desc_ptr a1 = Ptr A_shared 0 \<and> swizzle_mode a1 = 2 \<and>
      address_of base (desc_ptr a1) mod 128 = 0 \<and> desc_aligned base a1 \<and>
      desc_ptr b1 = Ptr B_shared 0 \<and> swizzle_mode b1 = 0 \<and>
      address_of base (desc_ptr b1) mod 16 = 0 \<and> desc_aligned base b1 \<and>
      desc_ptr b2 = Ptr B_shared (32 * sparse_N) \<and> swizzle_mode b2 = 0 \<and>
      address_of base (desc_ptr b2) mod 16 = 0 \<and> desc_aligned base b2 \<and>
      desc_ptr a2 = Ptr A_shared (c_div sparse_K_A 2) \<and> swizzle_mode a2 = 2 \<and>
      address_of base (desc_ptr a2) mod 128 = 32 \<and>
      address_of base (desc_ptr a2) mod 32 = 0 \<and>
      \<not> desc_aligned base a2)"
proof -
  note b = launch_bounds [OF assms(2-4)]
  let ?da = "Make_desc_a (Ptr A_shared 0) 3"
  let ?db = "Make_desc_b (Ptr B_shared 0) 3"
  let ?a1 = "Make_desc (Ptr A_shared 0) 8 32 2"
  let ?b1 = "Make_desc (Ptr B_shared 0) 8 16 0"
  let ?a2 = "Make_desc (Ptr A_shared (c_div sparse_K_A 2)) 8 32 2"
  let ?b2 = "Make_desc (Ptr B_shared (32 * sparse_N)) 8 8 0"
  from assms(1) have pa: "base A_shared mod 128 = 0" and pb: "base B_shared mod 16 = 0"
    by (simp_all add: placed_def)
  note oa = aligned_offset [OF pa] and ob = aligned16_offset [OF pb]
  have k: "c_div sparse_K_A 2 = 16" "32 * sparse_N = 256"
    by (simp_all add: sparse_K_A_def sparse_N_def c_div_nonneg)
  have ad: "address_of base (Ptr A_shared 0) = base A_shared"
    "address_of base (Ptr B_shared 0) = base B_shared"
    "address_of base (Ptr A_shared 16) = base A_shared + 32"
    "address_of base (Ptr B_shared 256) = base B_shared + 512"
    by (simp_all add: address_of_def sizeof_half_def)
  have bd: "builds (dense_kernel tid) = [?da, ?db]"
    using dense_kernel_stream [of tid] by simp
  have da: "desc_ptr ?da = Ptr A_shared 0" "swizzle_mode ?da = 3"
    "address_of base (desc_ptr ?da) mod 128 = 0" "desc_aligned base ?da"
    unfolding desc_aligned_def required_alignment_def desc_ptr.simps swizzle_mode.simps ad
    by (simp_all add: pa)
  from sparse_kernel_stream [OF assms(2) b] obtain es where
    es: "sparse_kernel metadata_array tid = Some es" and bs: "builds es = [?a1, ?b1, ?a2, ?b2]"
    by blast
  have a1: "desc_ptr ?a1 = Ptr A_shared 0" "swizzle_mode ?a1 = 2"
    "address_of base (desc_ptr ?a1) mod 128 = 0" "desc_aligned base ?a1"
    unfolding desc_aligned_def required_alignment_def desc_ptr.simps swizzle_mode.simps ad
    by (simp_all add: pa)
  have b1: "desc_ptr ?b1 = Ptr B_shared 0" "swizzle_mode ?b1 = 0"
    "address_of base (desc_ptr ?b1) mod 16 = 0" "desc_aligned base ?b1"
    unfolding desc_aligned_def required_alignment_def desc_ptr.simps swizzle_mode.simps ad
    by (simp_all add: pb)
  have b2: "desc_ptr ?b2 = Ptr B_shared (32 * sparse_N)" "swizzle_mode ?b2 = 0"
    "address_of base (desc_ptr ?b2) mod 16 = 0" "desc_aligned base ?b2"
    unfolding desc_aligned_def required_alignment_def desc_ptr.simps swizzle_mode.simps k ad
    by (simp_all add: ob)
  have a2: "desc_ptr ?a2 = Ptr A_shared (c_div sparse_K_A 2)" "swizzle_mode ?a2 = 2"
    "address_of base (desc_ptr ?a2) mod 128 = 32" "address_of base (desc_ptr ?a2) mod 32 = 0"
    "\<not> desc_aligned base ?a2"
    unfolding desc_aligned_def required_alignment_def desc_ptr.simps swizzle_mode.simps k ad
    by (simp_all add: oa)
  have dense: "\<exists>da db.
      builds (dense_kernel tid) = [da, db] \<and>
      desc_ptr da = Ptr A_shared 0 \<and> swizzle_mode da = 3 \<and>
      address_of base (desc_ptr da) mod 128 = 0 \<and> desc_aligned base da"
    by (rule exI [of _ ?da], rule exI [of _ ?db]) (intro conjI bd da)
  have sparse: "\<exists>es a1 b1 a2 b2.
      sparse_kernel metadata_array tid = Some es \<and>
      builds es = [a1, b1, a2, b2] \<and>
      desc_ptr a1 = Ptr A_shared 0 \<and> swizzle_mode a1 = 2 \<and>
      address_of base (desc_ptr a1) mod 128 = 0 \<and> desc_aligned base a1 \<and>
      desc_ptr b1 = Ptr B_shared 0 \<and> swizzle_mode b1 = 0 \<and>
      address_of base (desc_ptr b1) mod 16 = 0 \<and> desc_aligned base b1 \<and>
      desc_ptr b2 = Ptr B_shared (32 * sparse_N) \<and> swizzle_mode b2 = 0 \<and>
      address_of base (desc_ptr b2) mod 16 = 0 \<and> desc_aligned base b2 \<and>
      desc_ptr a2 = Ptr A_shared (c_div sparse_K_A 2) \<and> swizzle_mode a2 = 2 \<and>
      address_of base (desc_ptr a2) mod 128 = 32 \<and>
      address_of base (desc_ptr a2) mod 32 = 0 \<and>
      \<not> desc_aligned base a2"
    by (rule exI [of _ es], rule exI [of _ ?a1], rule exI [of _ ?b1],
        rule exI [of _ ?a2], rule exI [of _ ?b2])
      (intro conjI es bs a1 b1 b2 a2)
  from dense sparse show ?thesis
    by (intro conjI)
qed

theorem descriptor_base_alignment_witness:
  "placed example_base \<and> (0::int) \<le> 0 \<and> 0 < threads_per_block \<and>
   int (length (replicate 128 (0::u32))) = metadata_size \<and>
   (\<exists>da db.
      builds (dense_kernel 0) = [da, db] \<and>
      desc_ptr da = Ptr A_shared 0 \<and> desc_aligned example_base da) \<and>
   (\<exists>es a1 b1 a2 b2.
      sparse_kernel (replicate 128 0) 0 = Some es \<and>
      builds es = [a1, b1, a2, b2] \<and>
      desc_aligned example_base a1 \<and> desc_aligned example_base b1 \<and>
      desc_aligned example_base b2 \<and>
      address_of example_base (desc_ptr a2) mod 128 = 32 \<and>
      \<not> desc_aligned example_base a2)"
proof -
  have h: "placed example_base" "(0::int) \<le> 0" "0 < threads_per_block"
    "int (length (replicate 128 (0::u32))) = metadata_size"
    by (simp_all add: placed_def threads_per_block_eq metadata_size_eq)
  from descriptor_base_alignment [OF h] h show ?thesis
    by blast
qed

end
